theory Spec2Isabelle
  imports Complex_Main "HOL-Library.Char_ord" "HOL-Library.List_Lexorder" "HOL-Library.Multiset"
begin

section \<open>JavaScript values\<close>

text \<open>
  The constructor of \<open>VerticalOptionOrder\<close> receives a dynamically typed \<open>object\<close>: either
  the parameters of a new order or a record parsed from a server response. Its checks use
  \<open>typeof\<close>, \<open>instanceof\<close> and \<open>===\<close>, so the model keeps the dynamic types.

  A number is a double; the source never computes with one, it only tests \<open>typeof\<close> and
  coerces with \<open>Number(...)\<close>, so the finite values are kept as rationals.
\<close>

datatype jsnum = NaN | PosInfinity | NegInfinity | Finite rat

text \<open>
  Modelled from the spec: the class \<open>OptionInstrument\<close> is required by the source but is
  not part of it. An instance is the only value for which \<open>instanceof OptionInstrument\<close>
  holds, and it exposes its instrument URL string (\<open>instrumentURL\<close>).
\<close>

datatype jsval =
    Undefined
  | Null
  | Bool bool
  | Num jsnum
  | Str string
  | Arr "jsval list"
  | Obj "(string \<times> jsval) list"
  | Instrument string

type_synonym object = "(string \<times> jsval) list"

text \<open>
  An object is the list of its properties, each key once. The property read
  \<open>object.key\<close>: a property that is absent reads as \<open>undefined\<close>.
\<close>

definition getprop :: "object \<Rightarrow> string \<Rightarrow> jsval" where
  "getprop object key = (case map_of object key of None \<Rightarrow> Undefined | Some v \<Rightarrow> v)"

fun typeof :: "jsval \<Rightarrow> string" where
  "typeof Undefined = ''undefined''"
| "typeof Null = ''object''"
| "typeof (Bool b) = ''boolean''"
| "typeof (Num n) = ''number''"
| "typeof (Str s) = ''string''"
| "typeof (Arr xs) = ''object''"
| "typeof (Obj kvs) = ''object''"
| "typeof (Instrument u) = ''object''"

fun instanceof_OptionInstrument :: "jsval \<Rightarrow> bool" where
  "instanceof_OptionInstrument (Instrument u) = True"
| "instanceof_OptionInstrument v = False"

text \<open>The property read \<open>v.instrumentURL\<close>.\<close>

fun instrumentURL :: "jsval \<Rightarrow> jsval" where
  "instrumentURL (Instrument u) = Str u"
| "instrumentURL (Obj kvs) = getprop kvs ''instrumentURL''"
| "instrumentURL v = Undefined"

text \<open>
  \<open>String.prototype.toLowerCase\<close> on byte strings: the letters \<open>A\<close> to \<open>Z\<close> are mapped to
  \<open>a\<close> to \<open>z\<close>, any other character is left as it is.
\<close>

definition lower_char :: "char \<Rightarrow> char" where
  "lower_char c =
     (case map_of (zip ''ABCDEFGHIJKLMNOPQRSTUVWXYZ'' ''abcdefghijklmnopqrstuvwxyz'') c of
        Some l \<Rightarrow> l
      | None \<Rightarrow> c)"

definition toLowerCase :: "string \<Rightarrow> string" where
  "toLowerCase s = map lower_char s"

section \<open>The order and its collaborators\<close>

text \<open>
  The \<open>User\<close> class is a collaborator outside the source. \<open>isAuthenticated\<close> is \<open>None\<close>
  when the property is not a function, and otherwise the truth value the call returns.
\<close>

record user =
  isAuthenticated :: "bool option"
  getAccountNumber :: string
  getAuthToken :: string

record leg =
  position_effect :: string
  side :: string
  ratio_quantity :: nat
  option :: jsval

record form =
  account :: string
  direction :: string
  legs :: "leg list"
  price :: jsval
  time_in_force :: jsval
  trigger :: string
  type :: jsval
  quantity :: jsval
  override_day_trade_checks :: bool
  override_dtbp_checks :: bool
  ref_id :: jsval

text \<open>
  An instance: \<open>url\<close> is set by the constructor of the base class \<open>Robinhood\<close> (outside the
  source, so its value is a parameter), \<open>form\<close> is \<open>None\<close> while the property is not set,
  and \<open>props\<close> holds the properties copied from a server record.
\<close>

record order =
  url :: string
  usr :: user
  executed :: bool
  form :: "form option"
  props :: object

datatype error = Error string

datatype http_method = GET | POST

record request =
  http_method :: http_method
  uri :: string
  authorization :: string
  json :: "form option"

text \<open>
  The world outside an instance: the requests sent so far, and the identifiers that
  \<open>uuidv4()\<close> returns on its successive calls.
\<close>

record world =
  sent :: "request list"
  uuid_supply :: "nat \<Rightarrow> string"
  uuid_next :: nat

definition uuidv4 :: "world \<Rightarrow> jsval \<times> world" where
  "uuidv4 w = (Str (uuid_supply w (uuid_next w)), w\<lparr>uuid_next := Suc (uuid_next w)\<rparr>)"

section \<open>The constructor\<close>

text \<open>
  \<open>_validate()\<close>: the assertions in the order of the source; the result is the error of
  the first assertion that fails. \<open>toLowerCase\<close> is only reached on a string, since the
  assertion before it has checked \<open>typeof\<close>.
\<close>

definition validate :: "user \<Rightarrow> object \<Rightarrow> error option" where
  "validate u object =
    (if \<not> (isAuthenticated u = Some True) then
       Some (Error ''Parameter 'user' must be an instance of the User class and authenticated with Robinhood'')
     else if typeof (getprop object ''side'') \<noteq> ''string'' then
       Some (Error ''Object property 'side' must be a string'')
     else if \<not> (getprop object ''side'' = Str ''buy'' \<or> getprop object ''side'' = Str ''sell'') then
       Some (Error (''Object property 'side' must be either 'buy' or 'sell'' @ [CHR 0x27]))
     else if typeof (getprop object ''type'') \<noteq> ''string'' then
       Some (Error ''Object property 'type' must be a string'')
     else if \<not> (getprop object ''type'' = Str ''market'' \<or> getprop object ''type'' = Str ''limit'') then
       Some (Error (''Object property 'type' must be either 'market' or 'limit'' @ [CHR 0x27]))
     else if getprop object ''side'' = Str ''buy'' \<and> getprop object ''type'' = Str ''market'' then
       Some (Error (''Robinhood does not allow buy orders to be of type 'market'' @ [CHR 0x27]))
     else if typeof (getprop object ''price'') \<noteq> ''number'' then
       Some (Error ''Object property 'price' must be a number'')
     else if typeof (getprop object ''timeInForce'') \<noteq> ''string'' then
       Some (Error ''Object property 'timeInForce' must be a string'')
     else if (case getprop object ''timeInForce'' of
                Str s \<Rightarrow> toLowerCase s \<notin> set [''gfd'', ''gtc'', ''ioc'', ''opg'']
              | _ \<Rightarrow> True) then
       Some (Error ''Object property 'timeInForce' must be either GFD, GTC, IOC, or OPG'')
     else if \<not> instanceof_OptionInstrument (getprop object ''longLeg'') then
       Some (Error ''Object property 'optionInstrument' must be an instance of the OptionInstrument class'')
     else if \<not> instanceof_OptionInstrument (getprop object ''shortLeg'') then
       Some (Error ''Object property 'optionInstrument' must be an instance of the OptionInstrument class'')
     else if typeof (getprop object ''quantity'') \<noteq> ''number'' then
       Some (Error ''Object property 'quantity' must be a number'')
     else None)"

definition whitelist :: "string list" where
  "whitelist =
    [''opening_strategy'', ''updated_at'', ''ref_id'', ''time_in_force'',
     ''response_category'', ''chain_symbol'', ''id'', ''chain_id'', ''state'', ''trigger'',
     ''legs'', ''type'', ''direction'', ''premium'', ''price'', ''pending_quantity'',
     ''processed_quantity'', ''closing_strategy'', ''processed_premium'', ''created_at'',
     ''cancel_url'', ''canceled_quantity'', ''quantity'']"

definition build_form :: "string \<Rightarrow> user \<Rightarrow> object \<Rightarrow> jsval \<Rightarrow> form" where
  "build_form robinhood_url u object rid =
    \<lparr> account = robinhood_url @ ''/accounts/'' @ getAccountNumber u @ ''/'',
      direction = (if getprop object ''side'' = Str ''buy'' then ''debit'' else ''credit''),
      legs =
        [ \<lparr> position_effect = (if getprop object ''side'' = Str ''buy'' then ''close'' else ''open''),
            side = ''buy'',
            ratio_quantity = 1,
            option = instrumentURL (getprop object ''longLeg'') \<rparr>,
          \<lparr> position_effect = (if getprop object ''side'' = Str ''buy'' then ''close'' else ''open''),
            side = ''sell'',
            ratio_quantity = 1,
            option = instrumentURL (getprop object ''shortLeg'') \<rparr> ],
      price = getprop object ''price'',
      time_in_force = getprop object ''timeInForce'',
      trigger = ''immediate'',
      type = getprop object ''type'',
      quantity = getprop object ''quantity'',
      override_day_trade_checks = False,
      override_dtbp_checks = False,
      ref_id = rid \<rparr>"

text \<open>
  \<open>new VerticalOptionOrder(user, object)\<close>. The result is the thrown error or the new
  instance, together with the world after the call.
\<close>

definition VerticalOptionOrder ::
  "string \<Rightarrow> world \<Rightarrow> user \<Rightarrow> object \<Rightarrow> (error + order) \<times> world" where
  "VerticalOptionOrder robinhood_url w u object =
    (if getprop object ''state'' = Undefined \<and> getprop object ''cancel_url'' = Undefined then
       (case validate u object of
          Some e \<Rightarrow> (Inl e, w)
        | None \<Rightarrow>
            (case (if getprop object ''ref_id'' \<noteq> Undefined then (getprop object ''ref_id'', w)
                   else uuidv4 w) of
               (rid, w') \<Rightarrow>
                 (Inr \<lparr> url = robinhood_url, usr = u, executed = False,
                        form = Some (build_form robinhood_url u object rid),
                        props = [] \<rparr>, w')))
     else
       (Inr \<lparr> url = robinhood_url, usr = u, executed = True, form = None,
              props = map (\<lambda>key. (key, getprop object key)) whitelist \<rparr>, w))"

section \<open>Accessors\<close>

text \<open>
  \<open>Number(v)\<close> on the primitive values. The coercion of a string (a parse of its
  decimal text into a double) and of an object is left to the parameter \<open>coerce\<close>.
\<close>

fun Number :: "(jsval \<Rightarrow> jsnum) \<Rightarrow> jsval \<Rightarrow> jsnum" where
  "Number coerce Undefined = NaN"
| "Number coerce Null = Finite 0"
| "Number coerce (Bool b) = Finite (if b then 1 else 0)"
| "Number coerce (Num n) = n"
| "Number coerce v = coerce v"

text \<open>
  A \<open>Date\<close> object is its time value, the milliseconds since the epoch, or the invalid
  date. \<open>new Date(v)\<close> clips the number of a primitive value that is not a string; the
  parse of a string and the conversion of an object are left to the parameter \<open>parse\<close>.
\<close>

datatype jsdate = Invalid_Date | Time int

definition TimeClip :: "jsnum \<Rightarrow> jsdate" where
  "TimeClip n =
     (case n of
        Finite r \<Rightarrow>
          (if \<bar>r\<bar> > 8640000000000000 then Invalid_Date
           else Time (if 0 \<le> r then \<lfloor>r\<rfloor> else \<lceil>r\<rceil>))
      | _ \<Rightarrow> Invalid_Date)"

fun Date :: "(jsval \<Rightarrow> jsdate) \<Rightarrow> jsval \<Rightarrow> jsdate" where
  "Date parse Undefined = TimeClip NaN"
| "Date parse Null = TimeClip (Finite 0)"
| "Date parse (Bool b) = TimeClip (Finite (if b then 1 else 0))"
| "Date parse (Num n) = TimeClip n"
| "Date parse v = parse v"

definition getLegs :: "order \<Rightarrow> jsval" where
  "getLegs this = getprop (props this) ''legs''"

definition getDirection :: "order \<Rightarrow> jsval" where
  "getDirection this = getprop (props this) ''direction''"

definition getPremium :: "order \<Rightarrow> jsval" where
  "getPremium this = getprop (props this) ''premium''"

definition getProcessedPremium :: "order \<Rightarrow> jsval" where
  "getProcessedPremium this = getprop (props this) ''processed_premium''"

definition getTimeInForce :: "order \<Rightarrow> jsval" where
  "getTimeInForce this = getprop (props this) ''time_in_force''"

definition getReferenceID :: "order \<Rightarrow> jsval" where
  "getReferenceID this = getprop (props this) ''ref_id''"

definition getPrice :: "(jsval \<Rightarrow> jsnum) \<Rightarrow> order \<Rightarrow> jsnum" where
  "getPrice coerce this = Number coerce (getprop (props this) ''price'')"

definition getTrigger :: "order \<Rightarrow> jsval" where
  "getTrigger this = getprop (props this) ''trigger''"

definition getType :: "order \<Rightarrow> jsval" where
  "getType this = getprop (props this) ''type''"

definition getQuantity :: "(jsval \<Rightarrow> jsnum) \<Rightarrow> order \<Rightarrow> jsnum" where
  "getQuantity coerce this = Number coerce (getprop (props this) ''quantity'')"

definition getQuantityPending :: "(jsval \<Rightarrow> jsnum) \<Rightarrow> order \<Rightarrow> jsnum" where
  "getQuantityPending coerce this = Number coerce (getprop (props this) ''pending_quantity'')"

definition getQuantityCanceled :: "(jsval \<Rightarrow> jsnum) \<Rightarrow> order \<Rightarrow> jsnum" where
  "getQuantityCanceled coerce this = Number coerce (getprop (props this) ''canceled_quantity'')"

definition getChainID :: "order \<Rightarrow> jsval" where
  "getChainID this = getprop (props this) ''chain_id''"

definition getSymbol :: "order \<Rightarrow> jsval" where
  "getSymbol this = getprop (props this) ''chain_symbol''"

definition getDateCreated :: "(jsval \<Rightarrow> jsdate) \<Rightarrow> order \<Rightarrow> jsdate" where
  "getDateCreated parse this = Date parse (getprop (props this) ''created_at'')"

definition isExecuted :: "order \<Rightarrow> bool" where
  "isExecuted this = executed this"

definition isCredit :: "order \<Rightarrow> bool" where
  "isCredit this = (getprop (props this) ''direction'' = Str ''credit'')"

definition isDebit :: "order \<Rightarrow> bool" where
  "isDebit this = (getprop (props this) ''direction'' = Str ''debit'')"

section \<open>Submission and listing\<close>

text \<open>
  The transport (\<open>request\<close> together with \<open>Robinhood.handleResponse\<close>, both outside the
  source) is a parameter: it maps the request to the continuation that is called, the
  success continuation with the parsed response or \<open>reject\<close> with the error.
\<close>

datatype 'r response = Success 'r | Failure jsval

text \<open>
  How a promise ends: resolved, rejected, or never settled because the success
  continuation threw the given error.
\<close>

datatype 'a promise = Resolved 'a | Rejected jsval | Thrown error

text \<open>
  \<open>submit()\<close>: the result is the promise, the instance \<open>_this\<close> after the call, and the
  world after the call.
\<close>

definition submit ::
  "(request \<Rightarrow> object response) \<Rightarrow> world \<Rightarrow> order \<Rightarrow> order promise \<times> order \<times> world" where
  "submit transport w this =
    (if executed this then (Rejected (Str ''This order has already been executed!''), this, w)
     else
       (let req = \<lparr> http_method = POST,
                    uri = url this @ ''/options/orders/'',
                    authorization = ''Bearer '' @ getAuthToken (usr this),
                    json = form this \<rparr>;
            w1 = w\<lparr>sent := sent w @ [req]\<rparr>
        in case transport req of
             Failure e \<Rightarrow> (Rejected e, this, w1)
           | Success res \<Rightarrow>
               (let this' = this\<lparr>executed := True\<rparr>
                in case VerticalOptionOrder (url this) w1 (usr this) res of
                     (Inl e, w2) \<Rightarrow> (Thrown e, this', w2)
                   | (Inr new, w2) \<Rightarrow> (Resolved new, this', w2))))"

text \<open>
  The relational operator \<open><\<close> of JavaScript: two strings are compared by their code
  units; every other pair of operands is compared as numbers, which is left to the
  parameter \<open>numeric\<close>.
\<close>

definition js_less :: "(jsval \<Rightarrow> jsval \<Rightarrow> bool) \<Rightarrow> jsval \<Rightarrow> jsval \<Rightarrow> bool" where
  "js_less numeric a b =
     (case a of
        Str x \<Rightarrow> (case b of Str y \<Rightarrow> x < y | _ \<Rightarrow> numeric a b)
      | _ \<Rightarrow> numeric a b)"

text \<open>
  \<open>compareAscending\<close> and \<open>_.sortBy\<close> of lodash (a dependency, outside the source).
  \<open>sortBy\<close> orders by the comparison of the keys and, between keys that compare equal,
  by the position in the input.
\<close>

definition compareAscending :: "(jsval \<Rightarrow> jsval \<Rightarrow> bool) \<Rightarrow> jsval \<Rightarrow> jsval \<Rightarrow> int" where
  "compareAscending numeric val oth =
    (if val \<noteq> oth \<or> val = Num NaN then
       (let valIsDefined = (val \<noteq> Undefined); valIsNull = (val = Null);
            valIsReflexive = (val \<noteq> Num NaN);
            othIsDefined = (oth \<noteq> Undefined); othIsNull = (oth = Null);
            othIsReflexive = (oth \<noteq> Num NaN)
        in if (\<not> othIsNull \<and> js_less numeric oth val)
              \<or> (valIsNull \<and> othIsDefined \<and> othIsReflexive)
              \<or> (\<not> valIsDefined \<and> othIsReflexive)
              \<or> \<not> valIsReflexive then 1
           else if (\<not> valIsNull \<and> js_less numeric val oth)
              \<or> (othIsNull \<and> valIsDefined \<and> valIsReflexive)
              \<or> (\<not> othIsDefined \<and> valIsReflexive)
              \<or> \<not> othIsReflexive then - 1
           else 0)
     else 0)"

fun insert_by :: "('k \<Rightarrow> 'k \<Rightarrow> int) \<Rightarrow> ('a \<Rightarrow> 'k) \<Rightarrow> 'a \<Rightarrow> 'a list \<Rightarrow> 'a list" where
  "insert_by cmp key x [] = [x]"
| "insert_by cmp key x (y # ys) =
     (if cmp (key x) (key y) \<le> 0 then x # y # ys else y # insert_by cmp key x ys)"

definition sortBy :: "('k \<Rightarrow> 'k \<Rightarrow> int) \<Rightarrow> ('a \<Rightarrow> 'k) \<Rightarrow> 'a list \<Rightarrow> 'a list" where
  "sortBy cmp key array = foldr (insert_by cmp key) array []"

definition created_at :: "order \<Rightarrow> jsval" where
  "created_at this = getprop (props this) ''created_at''"

text \<open>The loop \<open>res.forEach\<close> of \<open>getOrders\<close>, with \<open>array\<close> as the accumulator.\<close>

fun collect ::
  "string \<Rightarrow> world \<Rightarrow> user \<Rightarrow> object list \<Rightarrow> order list \<Rightarrow> (error + order list) \<times> world" where
  "collect robinhood_url w u [] array = (Inr array, w)"
| "collect robinhood_url w u (entry # rest) array =
     (if getprop entry ''state'' \<noteq> Undefined then
        (case VerticalOptionOrder robinhood_url w u entry of
           (Inl e, w') \<Rightarrow> (Inl e, w')
         | (Inr new, w') \<Rightarrow> collect robinhood_url w' u rest (array @ [new]))
      else collect robinhood_url w u rest array)"

definition getOrders ::
  "string \<Rightarrow> (jsval \<Rightarrow> jsval \<Rightarrow> bool) \<Rightarrow> (request \<Rightarrow> object list response) \<Rightarrow> world \<Rightarrow> user
     \<Rightarrow> order list promise \<times> world" where
  "getOrders robinhood_url numeric transport w u =
    (let req = \<lparr> http_method = GET,
                 uri = ''https://api.robinhood.com/options/orders/'',
                 authorization = ''Bearer '' @ getAuthToken u,
                 json = None \<rparr>;
         w1 = w\<lparr>sent := sent w @ [req]\<rparr>
     in case transport req of
          Failure e \<Rightarrow> (Rejected e, w1)
        | Success res \<Rightarrow>
            (case collect robinhood_url w1 u res [] of
               (Inl e, w2) \<Rightarrow> (Thrown e, w2)
             | (Inr array, w2) \<Rightarrow>
                 (Resolved (sortBy (compareAscending numeric) created_at array), w2)))"

section \<open>Values parsed from JSON, and dates\<close>

text \<open>
  A response body is parsed from JSON: it holds no \<open>undefined\<close>, no number that is not
  finite and no instance of a class.
\<close>

fun is_json :: "jsval \<Rightarrow> bool" where
  "is_json Undefined = False"
| "is_json Null = True"
| "is_json (Bool b) = True"
| "is_json (Num n) = (case n of Finite r \<Rightarrow> True | _ \<Rightarrow> False)"
| "is_json (Str s) = True"
| "is_json (Arr xs) = list_all is_json xs"
| "is_json (Obj kvs) = list_all (\<lambda>kv. is_json (snd kv)) kvs"
| "is_json (Instrument u) = False"

definition json_object :: "object \<Rightarrow> bool" where
  "json_object object = list_all (\<lambda>kv. is_json (snd kv)) object"

text \<open>The comparison \<open>a <= b\<close> of two dates: false as soon as one of them is invalid.\<close>

fun date_le :: "jsdate \<Rightarrow> jsdate \<Rightarrow> bool" where
  "date_le (Time a) (Time b) = (a \<le> b)"
| "date_le a b = False"

text \<open>
  A reference \<open>Date.parse\<close> for the timestamps of the provider, the UTC instances
  \<open>YYYY-MM-DDTHH:mm:ssZ\<close> and \<open>YYYY-MM-DDTHH:mm:ss.sssZ\<close> of the date-time string format
  of ECMAScript. It is used to evaluate \<open>getDateCreated\<close> on such timestamps; any other
  value is outside it and reads as the invalid date.
\<close>

definition digit :: "char \<Rightarrow> nat option" where
  "digit c =
     (if (48::nat) \<le> of_char c \<and> of_char c \<le> (57::nat) then Some (of_char c - 48) else None)"

fun digits :: "nat \<Rightarrow> string \<Rightarrow> nat option" where
  "digits acc [] = Some acc"
| "digits acc (c # cs) =
     (case digit c of None \<Rightarrow> None | Some d \<Rightarrow> digits (10 * acc + d) cs)"

definition leap_year :: "nat \<Rightarrow> bool" where
  "leap_year y = (y mod 4 = 0 \<and> (y mod 100 \<noteq> 0 \<or> y mod 400 = 0))"

definition days_in_month :: "nat \<Rightarrow> nat \<Rightarrow> nat" where
  "days_in_month y m =
     (if m = 2 then (if leap_year y then 29 else 28)
      else if m = 4 \<or> m = 6 \<or> m = 9 \<or> m = 11 then 30 else 31)"

text \<open>The number of days from 1970-01-01 to the given day of the Gregorian calendar.\<close>

definition days_from_civil :: "nat \<Rightarrow> nat \<Rightarrow> nat \<Rightarrow> int" where
  "days_from_civil y m d =
     (let y' = (if m \<le> 2 then int y - 1 else int y);
          era = y' div 400;
          yoe = y' - era * 400;
          doy = (153 * (if 2 < m then int m - 3 else int m + 9) + 2) div 5 + int d - 1;
          doe = yoe * 365 + yoe div 4 - yoe div 100 + doy
      in era * 146097 + doe - 719468)"

definition parse_utc_string :: "string \<Rightarrow> jsdate" where
  "parse_utc_string s =
     (if (length s = 20 \<or> length s = 24 \<and> s ! 19 = CHR ''.'')
         \<and> s ! 4 = CHR ''-'' \<and> s ! 7 = CHR ''-'' \<and> s ! 10 = CHR ''T''
         \<and> s ! 13 = CHR '':'' \<and> s ! 16 = CHR '':'' \<and> last s = CHR ''Z''
      then
        (case (digits 0 (take 4 s), digits 0 (take 2 (drop 5 s)), digits 0 (take 2 (drop 8 s)),
               digits 0 (take 2 (drop 11 s)), digits 0 (take 2 (drop 14 s)),
               digits 0 (take 2 (drop 17 s)), digits 0 (take 3 (drop 20 (butlast s)))) of
           (Some y, Some mo, Some d, Some h, Some mi, Some sec, Some ms) \<Rightarrow>
             (if 1 \<le> mo \<and> mo \<le> 12 \<and> 1 \<le> d \<and> d \<le> days_in_month y mo
                 \<and> h \<le> 23 \<and> mi \<le> 59 \<and> sec \<le> 59
              then Time ((((days_from_civil y mo d * 24 + int h) * 60 + int mi) * 60 + int sec)
                          * 1000 + int ms)
              else Invalid_Date)
         | _ \<Rightarrow> Invalid_Date)
      else Invalid_Date)"

fun parse_utc :: "jsval \<Rightarrow> jsdate" where
  "parse_utc (Str s) = parse_utc_string s"
| "parse_utc v = Invalid_Date"

text \<open>The text of a string value, to state how a list of orders is sorted.\<close>

fun string_value :: "jsval \<Rightarrow> string" where
  "string_value (Str s) = s"
| "string_value v = []"

section \<open>Sample values\<close>

definition alice :: user where
  "alice = \<lparr> isAuthenticated = Some True, getAccountNumber = ''5QY12345'',
             getAuthToken = ''secret'' \<rparr>"

definition w0 :: world where
  "w0 = \<lparr> sent = [], uuid_supply = (\<lambda>n. replicate (Suc n) (CHR ''u'')), uuid_next = 0 \<rparr>"

definition sell_limit :: object where
  "sell_limit =
    [(''side'', Str ''sell''), (''type'', Str ''limit''), (''price'', Num (Finite (3 / 2))),
     (''timeInForce'', Str ''GTC''), (''longLeg'', Instrument ''/options/instruments/long/''),
     (''shortLeg'', Instrument ''/options/instruments/short/''),
     (''quantity'', Num (Finite 3))]"

definition buy_limit :: object where
  "buy_limit =
    [(''side'', Str ''buy''), (''type'', Str ''limit''), (''price'', Num (Finite (3 / 2))),
     (''timeInForce'', Str ''gfd''), (''longLeg'', Instrument ''/options/instruments/long/''),
     (''shortLeg'', Instrument ''/options/instruments/short/''),
     (''quantity'', Num (Finite 3)), (''ref_id'', Str ''abc'')]"

definition buy_market :: object where
  "buy_market =
    [(''side'', Str ''buy''), (''type'', Str ''market''), (''price'', Num (Finite (3 / 2))),
     (''timeInForce'', Str ''gfd''), (''longLeg'', Instrument ''/options/instruments/long/''),
     (''shortLeg'', Instrument ''/options/instruments/short/''),
     (''quantity'', Num (Finite 3))]"

definition filled :: object where
  "filled =
    [(''id'', Str ''o-1''), (''state'', Str ''filled''), (''direction'', Str ''credit''),
     (''price'', Str ''1.50''), (''quantity'', Str ''3''), (''time_in_force'', Str ''gtc''),
     (''ref_id'', Str ''abc''), (''created_at'', Str ''2018-07-06T08:00:00Z'')]"

definition robinhood :: string where
  "robinhood = ''https://api.robinhood.com''"

definition pending_sell :: order where
  "pending_sell =
     \<lparr> url = robinhood, usr = alice, executed = False,
       form = Some (build_form robinhood alice sell_limit (Str ''u'')), props = [] \<rparr>"

definition pending_buy :: order where
  "pending_buy =
     \<lparr> url = robinhood, usr = alice, executed = False,
       form = Some (build_form robinhood alice buy_limit (Str ''abc'')), props = [] \<rparr>"

definition filled_order :: order where
  "filled_order =
     \<lparr> url = robinhood, usr = alice, executed = True, form = None,
       props = map (\<lambda>key. (key, getprop filled key)) whitelist \<rparr>"

definition bad_long_leg :: object where
  "bad_long_leg =
    [(''side'', Str ''sell''), (''type'', Str ''limit''), (''price'', Num (Finite (3 / 2))),
     (''timeInForce'', Str ''GTC''), (''longLeg'', Str ''/options/instruments/long/''),
     (''shortLeg'', Instrument ''/options/instruments/short/''),
     (''quantity'', Num (Finite 3))]"

definition bad_short_leg :: object where
  "bad_short_leg =
    [(''side'', Str ''sell''), (''type'', Str ''limit''), (''price'', Num (Finite (3 / 2))),
     (''timeInForce'', Str ''GTC''), (''longLeg'', Instrument ''/options/instruments/long/''),
     (''shortLeg'', Str ''/options/instruments/short/''),
     (''quantity'', Num (Finite 3))]"

definition pending_sell_again :: order where
  "pending_sell_again =
     \<lparr> url = robinhood, usr = alice, executed = False,
       form = Some (build_form robinhood alice sell_limit (Str ''uu'')), props = [] \<rparr>"

text \<open>
  A sample of the coercion of a string to a number: right on the two decimal texts of the
  sample record, and not a number elsewhere.
\<close>

fun sample_coerce :: "jsval \<Rightarrow> jsnum" where
  "sample_coerce (Str s) =
     (if s = ''1.50'' then Finite (3 / 2) else if s = ''3'' then Finite 3 else NaN)"
| "sample_coerce v = NaN"

definition answer_filled :: "request \<Rightarrow> object response" where
  "answer_filled req = Success filled"

definition on_the_hour :: object where
  "on_the_hour =
     [(''id'', Str ''o-1''), (''state'', Str ''filled''),
      (''created_at'', Str ''2018-07-06T08:00:00Z'')]"

definition half_past :: object where
  "half_past =
     [(''id'', Str ''o-2''), (''state'', Str ''filled''),
      (''created_at'', Str ''2018-07-06T08:00:00.500Z'')]"

definition no_state :: object where
  "no_state = [(''id'', Str ''o-3''), (''created_at'', Str ''2018-07-06T07:00:00Z'')]"

definition order_on_the_hour :: order where
  "order_on_the_hour =
     \<lparr> url = robinhood, usr = alice, executed = True, form = None,
       props = map (\<lambda>key. (key, getprop on_the_hour key)) whitelist \<rparr>"

definition order_half_past :: order where
  "order_half_past =
     \<lparr> url = robinhood, usr = alice, executed = True, form = None,
       props = map (\<lambda>key. (key, getprop half_past key)) whitelist \<rparr>"

definition early :: object where
  "early =
     [(''id'', Str ''o-4''), (''state'', Str ''filled''),
      (''created_at'', Str ''2018-07-06T07:30:00.250Z'')]"

definition order_early :: order where
  "order_early =
     \<lparr> url = robinhood, usr = alice, executed = True, form = None,
       props = map (\<lambda>key. (key, getprop early key)) whitelist \<rparr>"

definition answer_uniform :: "request \<Rightarrow> object list response" where
  "answer_uniform req = Success [half_past, no_state, early]"

definition answer_listing :: "request \<Rightarrow> object list response" where
  "answer_listing req = Success [on_the_hour, no_state, half_past]"

text \<open>
  A sample of the numeric comparison: right on two finite numbers, and not called on
  two strings.
\<close>

fun sample_numeric :: "jsval \<Rightarrow> jsval \<Rightarrow> bool" where
  "sample_numeric (Num (Finite a)) (Num (Finite b)) = (a < b)"
| "sample_numeric a b = False"

section \<open>Facts about the constructor\<close>

lemma validate_sell_limit: "validate alice sell_limit = None"
  by (simp add: validate_def alice_def sell_limit_def getprop_def toLowerCase_def lower_char_def)

lemma validate_buy_limit: "validate alice buy_limit = None"
  by (simp add: validate_def alice_def buy_limit_def getprop_def toLowerCase_def lower_char_def)

lemma construct_sell_limit:
  "VerticalOptionOrder robinhood w0 alice sell_limit = (Inr pending_sell, w0\<lparr>uuid_next := 1\<rparr>)"
  by (simp add: VerticalOptionOrder_def validate_sell_limit pending_sell_def uuidv4_def)
     (simp add: sell_limit_def getprop_def w0_def)

lemma construct_buy_limit:
  "VerticalOptionOrder robinhood w0 alice buy_limit = (Inr pending_buy, w0)"
  by (simp add: VerticalOptionOrder_def validate_buy_limit pending_buy_def)
     (simp add: buy_limit_def getprop_def)

lemma construct_filled:
  "VerticalOptionOrder robinhood w alice filled = (Inr filled_order, w)"
  by (simp add: VerticalOptionOrder_def filled_order_def) (simp add: filled_def getprop_def)

lemma construct_new:
  assumes "getprop object ''state'' = Undefined" "getprop object ''cancel_url'' = Undefined"
    and "validate u object = None"
  shows "VerticalOptionOrder robinhood_url w u object =
    (Inr \<lparr> url = robinhood_url, usr = u, executed = False,
           form = Some (build_form robinhood_url u object
                   (if getprop object ''ref_id'' \<noteq> Undefined then getprop object ''ref_id''
                    else Str (uuid_supply w (uuid_next w)))),
           props = [] \<rparr>,
     if getprop object ''ref_id'' \<noteq> Undefined then w else w\<lparr>uuid_next := Suc (uuid_next w)\<rparr>)"
  using assms by (simp add: VerticalOptionOrder_def uuidv4_def)

lemma construct_existing:
  assumes "getprop object ''state'' \<noteq> Undefined \<or> getprop object ''cancel_url'' \<noteq> Undefined"
  shows "VerticalOptionOrder robinhood_url w u object =
    (Inr \<lparr> url = robinhood_url, usr = u, executed = True, form = None,
           props = map (\<lambda>key. (key, getprop object key)) whitelist \<rparr>, w)"
  using assms by (auto simp add: VerticalOptionOrder_def)

lemma construct_cases:
  assumes "VerticalOptionOrder robinhood_url w u object = (Inr new, w')"
  shows "(executed new \<and> (getprop object ''state'' \<noteq> Undefined \<or> getprop object ''cancel_url'' \<noteq> Undefined))
       \<or> (\<not> executed new \<and> getprop object ''state'' = Undefined \<and> getprop object ''cancel_url'' = Undefined
            \<and> validate u object = None)"
  using assms by (auto simp add: VerticalOptionOrder_def split: if_splits option.splits prod.splits)

lemma construct_sent: "sent (snd (VerticalOptionOrder robinhood_url w u object)) = sent w"
  by (auto simp add: VerticalOptionOrder_def uuidv4_def split: option.splits)

lemma json_no_instrument:
  assumes "json_object object"
  shows "\<not> instanceof_OptionInstrument (getprop object key)"
proof (cases "map_of object key")
  case None
  then show ?thesis by (simp add: getprop_def)
next
  case (Some v)
  then have "(key, v) \<in> set object" by (rule map_of_SomeD)
  with assms have "is_json v" by (auto simp add: json_object_def list_all_iff)
  then have "\<not> instanceof_OptionInstrument v" by (cases v) simp_all
  with Some show ?thesis by (simp add: getprop_def)
qed

lemma json_not_validated:
  assumes "json_object object"
  shows "validate u object \<noteq> None"
  using json_no_instrument [OF assms, of "''longLeg''"]
  by (simp add: validate_def)

lemma json_object_filled: "json_object filled"
  by (simp add: json_object_def filled_def)

lemma validate_None_iff:
  "validate u object = None \<longleftrightarrow>
     isAuthenticated u = Some True
     \<and> (getprop object ''side'' = Str ''buy'' \<or> getprop object ''side'' = Str ''sell'')
     \<and> (getprop object ''type'' = Str ''market'' \<or> getprop object ''type'' = Str ''limit'')
     \<and> \<not> (getprop object ''side'' = Str ''buy'' \<and> getprop object ''type'' = Str ''market'')
     \<and> typeof (getprop object ''price'') = ''number''
     \<and> (\<exists>s. getprop object ''timeInForce'' = Str s
              \<and> toLowerCase s \<in> set [''gfd'', ''gtc'', ''ioc'', ''opg''])
     \<and> instanceof_OptionInstrument (getprop object ''longLeg'')
     \<and> instanceof_OptionInstrument (getprop object ''shortLeg'')
     \<and> typeof (getprop object ''quantity'') = ''number''"
  by (cases "getprop object ''timeInForce''") (auto simp add: validate_def)

lemma construct_rejected:
  assumes "getprop object ''state'' = Undefined" "getprop object ''cancel_url'' = Undefined"
    and "validate u object = Some e"
  shows "VerticalOptionOrder robinhood_url w u object = (Inl e, w)"
  using assms by (simp add: VerticalOptionOrder_def)

lemma construct_sell_limit_again:
  "VerticalOptionOrder robinhood (w0\<lparr>uuid_next := 1\<rparr>) alice sell_limit
     = (Inr pending_sell_again, w0\<lparr>uuid_next := 2\<rparr>)"
  by (simp add: VerticalOptionOrder_def validate_sell_limit pending_sell_again_def uuidv4_def)
     (simp add: sell_limit_def getprop_def w0_def)

lemma uuid_supply_w0_inj: "inj (uuid_supply w0)"
proof (rule injI)
  fix m n assume "uuid_supply w0 m = uuid_supply w0 n"
  then have "length (replicate (Suc m) (CHR ''u'')) = length (replicate (Suc n) (CHR ''u''))"
    by (simp add: w0_def)
  then show "m = n" by simp
qed

lemma construct_supply:
  "uuid_supply (snd (VerticalOptionOrder robinhood_url w u object)) = uuid_supply w
   \<and> uuid_next w \<le> uuid_next (snd (VerticalOptionOrder robinhood_url w u object))"
  by (auto simp add: VerticalOptionOrder_def uuidv4_def split: option.splits)

lemma construct_new_ref_id:
  assumes "VerticalOptionOrder robinhood_url w u object = (Inr new, w')" and "\<not> executed new"
  shows "\<exists>f. form new = Some f
           \<and> ref_id f = (if getprop object ''ref_id'' \<noteq> Undefined then getprop object ''ref_id''
                         else Str (uuid_supply w (uuid_next w)))
           \<and> w' = (if getprop object ''ref_id'' \<noteq> Undefined then w
                    else w\<lparr>uuid_next := Suc (uuid_next w)\<rparr>)"
proof -
  from construct_cases [OF assms(1)] assms(2)
  have n: "getprop object ''state'' = Undefined" "getprop object ''cancel_url'' = Undefined"
    and v: "validate u object = None" by auto
  from construct_new [OF n v, of robinhood_url w] assms(1)
  show ?thesis by (auto simp add: build_form_def)
qed

lemma getprop_copied:
  assumes "key \<in> set keys"
  shows "getprop (map (\<lambda>key. (key, f key)) keys) key = f key"
  using assms by (simp add: getprop_def map_of_map_restrict)

section \<open>Facts about sorting and listing\<close>

lemma insert_by_mset: "mset (insert_by cmp key x ys) = add_mset x (mset ys)"
  by (induction ys) simp_all

lemma sortBy_mset: "mset (sortBy cmp key xs) = mset xs"
  by (induction xs) (simp_all add: sortBy_def insert_by_mset)

lemma compareAscending_strings:
  "compareAscending numeric (Str x) (Str y) \<le> 0 \<longleftrightarrow> x \<le> y"
  by (auto simp add: compareAscending_def js_less_def Let_def)

lemma insert_by_insort:
  assumes "key x = Str (skey x)" and "\<forall>y\<in>set ys. key y = Str (skey y)"
  shows "insert_by (compareAscending numeric) key x ys = insort_key skey x ys"
  using assms(2) by (induction ys) (simp_all add: assms(1) compareAscending_strings)

lemma sortBy_sort_key:
  assumes "\<forall>x\<in>set xs. key x = Str (skey x)"
  shows "sortBy (compareAscending numeric) key xs = sort_key skey xs"
  using assms
proof (induction xs)
  case Nil
  then show ?case by (simp add: sortBy_def)
next
  case (Cons x xs)
  then have "sortBy (compareAscending numeric) key xs = sort_key skey xs" by simp
  moreover from Cons.prems have "\<forall>y\<in>set (sort_key skey xs). key y = Str (skey y)" by simp
  ultimately show ?case
    using Cons.prems by (simp add: sortBy_def sort_key_def insert_by_insort)
qed

lemma collect_eq:
  "collect robinhood_url w u res array =
     (Inr (array @ map (\<lambda>e. \<lparr> url = robinhood_url, usr = u, executed = True, form = None,
                             props = map (\<lambda>key. (key, getprop e key)) whitelist \<rparr>)
                       (filter (\<lambda>e. getprop e ''state'' \<noteq> Undefined) res)), w)"
  by (induction res arbitrary: array) (simp_all add: construct_existing)

lemma created_at_copied:
  "created_at \<lparr> url = robinhood_url, usr = u, executed = True, form = None,
                props = map (\<lambda>key. (key, getprop e key)) whitelist \<rparr> = getprop e ''created_at''"
proof -
  have "''created_at'' \<in> set whitelist" by (simp add: whitelist_def)
  then show ?thesis by (simp add: created_at_def getprop_copied)
qed

section \<open>Construction\<close>

text \<open>
  C4. A new order (neither \<open>state\<close> nor \<open>cancel_url\<close> is set) with side \<open>buy\<close> and type
  \<open>market\<close> is never constructed: the constructor throws, whatever the user and the other
  properties are.
\<close>

theorem buy_market_rejected:
  assumes "getprop object ''state'' = Undefined" and "getprop object ''cancel_url'' = Undefined"
    and "getprop object ''side'' = Str ''buy''" and "getprop object ''type'' = Str ''market''"
  shows "\<exists>e. fst (VerticalOptionOrder robinhood_url w u object) = Inl e"
  using assms by (simp add: VerticalOptionOrder_def validate_def)

theorem buy_market_rejected_witness:
  "getprop buy_market ''state'' = Undefined \<and> getprop buy_market ''cancel_url'' = Undefined
   \<and> getprop buy_market ''side'' = Str ''buy'' \<and> getprop buy_market ''type'' = Str ''market''
   \<and> (\<exists>e. fst (VerticalOptionOrder robinhood w0 alice buy_market) = Inl e)"
  using buy_market_rejected [of buy_market robinhood w0 alice]
  by (simp add: buy_market_def getprop_def)

text \<open>
  C3. The error of a failed check does not name the offending property when the check is
  one of the two on the legs: an order whose \<open>longLeg\<close> is not an instrument and an order
  whose \<open>shortLeg\<close> is not an instrument are rejected with one and the same message, which
  names a property \<open>optionInstrument\<close> that the parameters do not have. Neither call
  sends a request or draws an identifier: the world is unchanged.
\<close>

theorem leg_errors_name_no_leg:
  "VerticalOptionOrder robinhood w0 alice bad_long_leg =
     (Inl (Error ''Object property 'optionInstrument' must be an instance of the OptionInstrument class''), w0)
   \<and> VerticalOptionOrder robinhood w0 alice bad_short_leg =
     (Inl (Error ''Object property 'optionInstrument' must be an instance of the OptionInstrument class''), w0)"
  by (simp add: VerticalOptionOrder_def validate_def alice_def bad_long_leg_def bad_short_leg_def
      getprop_def toLowerCase_def lower_char_def)

text \<open>
  C6. The payload of a new order carries the \<open>ref_id\<close> of the parameters whenever one is
  given. When it is not given the identifier is drawn from \<open>uuidv4()\<close>, so two orders
  built without one, the second at any later point of the same run, carry different
  identifiers, as long as \<open>uuidv4()\<close> never returns the same identifier twice.
\<close>

theorem reference_identifier:
  assumes first: "VerticalOptionOrder url1 w u1 object1 = (Inr new1, w1)" "\<not> executed new1"
    and later: "uuid_supply w' = uuid_supply w1" "uuid_next w1 \<le> uuid_next w'"
    and second: "VerticalOptionOrder url2 w' u2 object2 = (Inr new2, w2)" "\<not> executed new2"
    and fresh: "inj (uuid_supply w)"
  shows "\<exists>f1 f2. form new1 = Some f1 \<and> form new2 = Some f2
           \<and> (getprop object1 ''ref_id'' \<noteq> Undefined \<longrightarrow> ref_id f1 = getprop object1 ''ref_id'')
           \<and> (getprop object2 ''ref_id'' \<noteq> Undefined \<longrightarrow> ref_id f2 = getprop object2 ''ref_id'')
           \<and> (getprop object1 ''ref_id'' = Undefined \<longrightarrow>
                 ref_id f1 = Str (uuid_supply w (uuid_next w)))
           \<and> (getprop object2 ''ref_id'' = Undefined \<longrightarrow>
                 ref_id f2 = Str (uuid_supply w' (uuid_next w')))
           \<and> (getprop object1 ''ref_id'' = Undefined \<and> getprop object2 ''ref_id'' = Undefined
                 \<longrightarrow> ref_id f1 \<noteq> ref_id f2)"
proof -
  from construct_new_ref_id [OF first] obtain f1 where
    f1: "form new1 = Some f1"
      "ref_id f1 = (if getprop object1 ''ref_id'' \<noteq> Undefined then getprop object1 ''ref_id''
                    else Str (uuid_supply w (uuid_next w)))"
      "w1 = (if getprop object1 ''ref_id'' \<noteq> Undefined then w
             else w\<lparr>uuid_next := Suc (uuid_next w)\<rparr>)"
    by blast
  from construct_new_ref_id [OF second] obtain f2 where
    f2: "form new2 = Some f2"
      "ref_id f2 = (if getprop object2 ''ref_id'' \<noteq> Undefined then getprop object2 ''ref_id''
                    else Str (uuid_supply w' (uuid_next w')))"
    by blast
  have "ref_id f1 \<noteq> ref_id f2"
    if u: "getprop object1 ''ref_id'' = Undefined" "getprop object2 ''ref_id'' = Undefined"
  proof -
    from u f1 have a: "ref_id f1 = Str (uuid_supply w (uuid_next w))"
      and n: "uuid_next w1 = Suc (uuid_next w)" and s: "uuid_supply w1 = uuid_supply w" by simp_all
    from u f2 later s have b: "ref_id f2 = Str (uuid_supply w (uuid_next w'))" by simp
    from n later have "uuid_next w \<noteq> uuid_next w'" by simp
    with fresh have "uuid_supply w (uuid_next w) \<noteq> uuid_supply w (uuid_next w')"
      by (simp add: inj_eq)
    with a b show ?thesis by simp
  qed
  with f1 f2 show ?thesis by auto
qed

theorem reference_identifier_witness:
  "VerticalOptionOrder robinhood w0 alice sell_limit = (Inr pending_sell, w0\<lparr>uuid_next := 1\<rparr>)
   \<and> \<not> executed pending_sell
   \<and> VerticalOptionOrder robinhood (w0\<lparr>uuid_next := 1\<rparr>) alice sell_limit
        = (Inr pending_sell_again, w0\<lparr>uuid_next := 2\<rparr>)
   \<and> \<not> executed pending_sell_again
   \<and> inj (uuid_supply w0)
   \<and> getprop sell_limit ''ref_id'' = Undefined
   \<and> (\<exists>f1 f2. form pending_sell = Some f1 \<and> form pending_sell_again = Some f2
          \<and> ref_id f1 \<noteq> ref_id f2)"
proof -
  have p: "\<not> executed pending_sell" "\<not> executed pending_sell_again"
    by (simp_all add: pending_sell_def pending_sell_again_def)
  have r: "getprop sell_limit ''ref_id'' = Undefined" by (simp add: sell_limit_def getprop_def)
  from reference_identifier [OF construct_sell_limit p(1) _ _ construct_sell_limit_again p(2)
      uuid_supply_w0_inj] r
  have "\<exists>f1 f2. form pending_sell = Some f1 \<and> form pending_sell_again = Some f2
          \<and> ref_id f1 \<noteq> ref_id f2" by auto
  with p r construct_sell_limit construct_sell_limit_again uuid_supply_w0_inj show ?thesis by simp
qed

section \<open>The payload of a new order\<close>

text \<open>
  C5, as the claim states it, fails: the two legs of the payload do not take opposite
  open/close postures. Both legs of a sell order carry the position effect \<open>open\<close>.
\<close>

theorem legs_position_effect_counterexample:
  "VerticalOptionOrder robinhood w0 alice sell_limit = (Inr pending_sell, w0\<lparr>uuid_next := 1\<rparr>)
   \<and> form pending_sell = Some (build_form robinhood alice sell_limit (Str ''u''))
   \<and> map position_effect (legs (build_form robinhood alice sell_limit (Str ''u''))) = [''open'', ''open'']"
  using construct_sell_limit
  by (simp add: pending_sell_def build_form_def sell_limit_def getprop_def)

text \<open>
  C5, amended. The payload of every new order has exactly two legs: the first buys the
  long leg, the second sells the short leg, and both carry the same position effect. The
  side is \<open>buy\<close> or \<open>sell\<close>; a buy order has direction \<open>debit\<close> and closes both legs, a
  sell order has direction \<open>credit\<close> and opens both legs.
\<close>

theorem legs_postures:
  assumes "VerticalOptionOrder robinhood_url w u object = (Inr new, w')" and "\<not> executed new"
  shows "\<exists>f long short.
           form new = Some f \<and> legs f = [long, short]
           \<and> side long = ''buy'' \<and> side short = ''sell''
           \<and> option long = instrumentURL (getprop object ''longLeg'')
           \<and> option short = instrumentURL (getprop object ''shortLeg'')
           \<and> position_effect long = position_effect short
           \<and> (getprop object ''side'' = Str ''buy'' \<or> getprop object ''side'' = Str ''sell'')
           \<and> (getprop object ''side'' = Str ''buy'' \<longrightarrow>
                 direction f = ''debit'' \<and> position_effect long = ''close'')
           \<and> (getprop object ''side'' = Str ''sell'' \<longrightarrow>
                 direction f = ''credit'' \<and> position_effect long = ''open'')"
proof -
  from construct_cases [OF assms(1)] assms(2)
  have n: "getprop object ''state'' = Undefined" "getprop object ''cancel_url'' = Undefined"
    and v: "validate u object = None" by auto
  from v have s: "getprop object ''side'' = Str ''buy'' \<or> getprop object ''side'' = Str ''sell''"
    by (simp add: validate_None_iff)
  from construct_new [OF n v, of robinhood_url w] assms(1)
  have "form new = Some (build_form robinhood_url u object
                   (if getprop object ''ref_id'' \<noteq> Undefined then getprop object ''ref_id''
                    else Str (uuid_supply w (uuid_next w))))"
    by auto
  with s show ?thesis by (auto simp add: build_form_def)
qed

theorem legs_postures_witness:
  "VerticalOptionOrder robinhood w0 alice buy_limit = (Inr pending_buy, w0)
   \<and> \<not> executed pending_buy
   \<and> (\<exists>f long short.
           form pending_buy = Some f \<and> legs f = [long, short]
           \<and> side long = ''buy'' \<and> side short = ''sell''
           \<and> option long = instrumentURL (getprop buy_limit ''longLeg'')
           \<and> option short = instrumentURL (getprop buy_limit ''shortLeg'')
           \<and> position_effect long = position_effect short
           \<and> (getprop buy_limit ''side'' = Str ''buy'' \<or> getprop buy_limit ''side'' = Str ''sell'')
           \<and> (getprop buy_limit ''side'' = Str ''buy'' \<longrightarrow>
                 direction f = ''debit'' \<and> position_effect long = ''close'')
           \<and> (getprop buy_limit ''side'' = Str ''sell'' \<longrightarrow>
                 direction f = ''credit'' \<and> position_effect long = ''open''))"
proof -
  have p: "\<not> executed pending_buy" by (simp add: pending_buy_def)
  from legs_postures [OF construct_buy_limit p] construct_buy_limit p show ?thesis by blast
qed

text \<open>
  C7, as the claim states it, fails: the direction of a new order is stored in its payload
  only, while \<open>isDebit()\<close> and \<open>isCredit()\<close> read the property \<open>direction\<close> of the
  instance, which only a server record sets. A new buy order has the payload direction
  \<open>debit\<close> and yet \<open>isDebit()\<close> is false.
\<close>

theorem pending_buy_not_debit_counterexample:
  "VerticalOptionOrder robinhood w0 alice buy_limit = (Inr pending_buy, w0)
   \<and> getprop buy_limit ''side'' = Str ''buy''
   \<and> form pending_buy = Some (build_form robinhood alice buy_limit (Str ''abc''))
   \<and> direction (build_form robinhood alice buy_limit (Str ''abc'')) = ''debit''
   \<and> getDirection pending_buy = Undefined
   \<and> \<not> isDebit pending_buy"
  using construct_buy_limit
  by (simp add: pending_buy_def build_form_def buy_limit_def getprop_def isDebit_def getDirection_def)

text \<open>
  C7, amended. In the payload of a new order the direction is \<open>debit\<close> exactly when the side
  is \<open>buy\<close> and \<open>credit\<close> exactly when the side is \<open>sell\<close>; on that order
  \<open>getDirection()\<close> is undefined and \<open>isDebit()\<close> and \<open>isCredit()\<close> are both false. An
  order built from a server record has the direction of the record. On every order
  \<open>isDebit()\<close> and \<open>isCredit()\<close> hold exactly when \<open>getDirection()\<close> is \<open>debit\<close> and
  \<open>credit\<close>.
\<close>

theorem direction_follows_side:
  assumes "VerticalOptionOrder robinhood_url w u object = (Inr new, w')"
  shows "(\<not> executed new \<longrightarrow>
            (\<exists>f. form new = Some f
                \<and> (direction f = ''debit'' \<longleftrightarrow> getprop object ''side'' = Str ''buy'')
                \<and> (direction f = ''credit'' \<longleftrightarrow> getprop object ''side'' = Str ''sell''))
            \<and> getDirection new = Undefined \<and> \<not> isDebit new \<and> \<not> isCredit new)
         \<and> (executed new \<longrightarrow> getDirection new = getprop object ''direction'')
         \<and> (isDebit new \<longleftrightarrow> getDirection new = Str ''debit'')
         \<and> (isCredit new \<longleftrightarrow> getDirection new = Str ''credit'')"
proof (cases "executed new")
  case True
  with construct_cases [OF assms]
  have "getprop object ''state'' \<noteq> Undefined \<or> getprop object ''cancel_url'' \<noteq> Undefined" by auto
  from construct_existing [OF this, of robinhood_url w u] assms
  have "props new = map (\<lambda>key. (key, getprop object key)) whitelist" by auto
  then have "getDirection new = getprop object ''direction''"
    by (simp add: getDirection_def whitelist_def getprop_def)
  with True show ?thesis by (simp add: isDebit_def isCredit_def getDirection_def)
next
  case False
  with construct_cases [OF assms]
  have n: "getprop object ''state'' = Undefined" "getprop object ''cancel_url'' = Undefined"
    and v: "validate u object = None" by auto
  from v have s: "getprop object ''side'' = Str ''buy'' \<or> getprop object ''side'' = Str ''sell''"
    by (simp add: validate_None_iff)
  from construct_new [OF n v, of robinhood_url w] assms
  have f: "form new = Some (build_form robinhood_url u object
                   (if getprop object ''ref_id'' \<noteq> Undefined then getprop object ''ref_id''
                    else Str (uuid_supply w (uuid_next w))))"
    and p: "props new = []"
    by auto
  from s f have "\<exists>f. form new = Some f
                \<and> (direction f = ''debit'' \<longleftrightarrow> getprop object ''side'' = Str ''buy'')
                \<and> (direction f = ''credit'' \<longleftrightarrow> getprop object ''side'' = Str ''sell'')"
    by (auto simp add: build_form_def)
  with p False show ?thesis
    by (simp add: isDebit_def isCredit_def getDirection_def getprop_def)
qed

theorem direction_follows_side_witness:
  "VerticalOptionOrder robinhood w0 alice filled = (Inr filled_order, w0)
   \<and> executed filled_order
   \<and> getDirection filled_order = getprop filled ''direction''
   \<and> \<not> isDebit filled_order \<and> isCredit filled_order
   \<and> getDirection filled_order = Str ''credit''
   \<and> VerticalOptionOrder robinhood w0 alice buy_limit = (Inr pending_buy, w0)
   \<and> \<not> executed pending_buy
   \<and> (\<exists>f. form pending_buy = Some f
          \<and> (direction f = ''debit'' \<longleftrightarrow> getprop buy_limit ''side'' = Str ''buy'')
          \<and> (direction f = ''credit'' \<longleftrightarrow> getprop buy_limit ''side'' = Str ''sell''))
   \<and> getDirection pending_buy = Undefined \<and> \<not> isDebit pending_buy \<and> \<not> isCredit pending_buy"
proof -
  have e: "executed filled_order" by (simp add: filled_order_def)
  have d: "getprop filled ''direction'' = Str ''credit''" by (simp add: filled_def getprop_def)
  have p: "\<not> executed pending_buy" by (simp add: pending_buy_def)
  from direction_follows_side [OF construct_filled [of w0]] e d construct_filled [of w0]
    direction_follows_side [OF construct_buy_limit] p construct_buy_limit
  show ?thesis by simp
qed

section \<open>Submission\<close>

text \<open>
  C1. \<open>submit()\<close> on an order whose \<open>executed\<close> flag is set rejects at once with the
  message that the order has already been executed: no request is sent (the world is
  unchanged, whatever the transport would answer) and the instance is unchanged.
\<close>

theorem submit_executed_rejected:
  assumes "executed this"
  shows "submit transport w this =
           (Rejected (Str ''This order has already been executed!''), this, w)"
  using assms by (simp add: submit_def)

theorem submit_executed_rejected_witness:
  "executed filled_order \<and>
   submit answer_filled w0 filled_order =
     (Rejected (Str ''This order has already been executed!''), filled_order, w0)"
  using submit_executed_rejected [of filled_order answer_filled w0]
  by (simp add: filled_order_def)

text \<open>
  C2, as the claim states it, fails: a successful \<open>submit()\<close> sets the \<open>executed\<close> flag
  of the instance it was called on, so the original order does not stay as constructed.
\<close>

theorem submit_sets_executed_counterexample:
  "\<not> executed pending_sell
   \<and> fst (submit answer_filled w0 pending_sell) = Resolved filled_order
   \<and> executed (fst (snd (submit answer_filled w0 pending_sell)))"
  by (simp add: submit_def answer_filled_def construct_filled [unfolded robinhood_def]
      pending_sell_def robinhood_def)

text \<open>
  C2, amended. When \<open>submit()\<close> of an order that is not executed resolves on a response
  parsed from JSON, the result is a new instance on the executed path, built from the
  response alone; on the original instance the \<open>executed\<close> flag is set and nothing else
  changes (its url, user, form payload and copied properties are as before).
\<close>

theorem submit_resolves:
  assumes "\<not> executed this"
    and "transport \<lparr> http_method = POST, uri = url this @ ''/options/orders/'',
                     authorization = ''Bearer '' @ getAuthToken (usr this),
                     json = form this \<rparr> = Success res"
    and "json_object res"
    and "submit transport w this = (Resolved new, this', w')"
  shows "new = \<lparr> url = url this, usr = usr this, executed = True, form = None,
                 props = map (\<lambda>key. (key, getprop res key)) whitelist \<rparr>
         \<and> executed new
         \<and> this' = this\<lparr>executed := True\<rparr>
         \<and> url this' = url this \<and> usr this' = usr this \<and> form this' = form this
         \<and> props this' = props this"
proof -
  let ?w1 = "w\<lparr>sent := sent w @ [\<lparr> http_method = POST, uri = url this @ ''/options/orders/'',
                     authorization = ''Bearer '' @ getAuthToken (usr this),
                     json = form this \<rparr>]\<rparr>"
  obtain r w2 where c: "VerticalOptionOrder (url this) ?w1 (usr this) res = (r, w2)"
    by (cases "VerticalOptionOrder (url this) ?w1 (usr this) res")
  from assms(1,2,4) c have r: "r = Inr new" and t: "this' = this\<lparr>executed := True\<rparr>"
    by (auto simp add: submit_def Let_def split: sum.splits)
  from c r json_not_validated [OF assms(3), of "usr this"] construct_cases [of "url this" ?w1 "usr this" res new w2]
  have "getprop res ''state'' \<noteq> Undefined \<or> getprop res ''cancel_url'' \<noteq> Undefined"
    by auto
  from construct_existing [OF this, of "url this" ?w1 "usr this"] c r
  have "new = \<lparr> url = url this, usr = usr this, executed = True, form = None,
                 props = map (\<lambda>key. (key, getprop res key)) whitelist \<rparr>" by simp
  with t show ?thesis by simp
qed

theorem submit_resolves_witness:
  "\<not> executed pending_sell
   \<and> json_object filled
   \<and> submit answer_filled w0 pending_sell =
       (Resolved filled_order, pending_sell\<lparr>executed := True\<rparr>,
        w0\<lparr>sent := [\<lparr> http_method = POST, uri = url pending_sell @ ''/options/orders/'',
                     authorization = ''Bearer '' @ getAuthToken (usr pending_sell),
                     json = form pending_sell \<rparr>]\<rparr>)
   \<and> filled_order = \<lparr> url = url pending_sell, usr = usr pending_sell, executed = True, form = None,
                 props = map (\<lambda>key. (key, getprop filled key)) whitelist \<rparr>
   \<and> executed filled_order
   \<and> form (pending_sell\<lparr>executed := True\<rparr>) = form pending_sell"
proof -
  have s: "submit answer_filled w0 pending_sell =
       (Resolved filled_order, pending_sell\<lparr>executed := True\<rparr>,
        w0\<lparr>sent := [\<lparr> http_method = POST, uri = url pending_sell @ ''/options/orders/'',
                     authorization = ''Bearer '' @ getAuthToken (usr pending_sell),
                     json = form pending_sell \<rparr>]\<rparr>)"
    by (simp add: submit_def answer_filled_def construct_filled [unfolded robinhood_def]
        pending_sell_def robinhood_def w0_def)
  have p: "\<not> executed pending_sell" by (simp add: pending_sell_def)
  have a: "answer_filled req = Success filled" for req by (simp add: answer_filled_def)
  from submit_resolves [OF p a json_object_filled s] p json_object_filled s
  show ?thesis by simp
qed

section \<open>Listing\<close>

text \<open>
  C8, as the claim states it, fails: \<open>getOrders\<close> sorts by the text of \<open>created_at\<close>, not
  by the date that \<open>getDateCreated()\<close> makes of it. A timestamp on the full second is
  written without a fraction; it is listed after the timestamp half a second later,
  because the character \<open>.\<close> is smaller than \<open>Z\<close>.
\<close>

theorem getOrders_by_date_counterexample:
  "fst (getOrders robinhood sample_numeric answer_listing w0 alice)
     = Resolved [order_half_past, order_on_the_hour]
   \<and> getDateCreated parse_utc order_half_past = Time 1530864000500
   \<and> getDateCreated parse_utc order_on_the_hour = Time 1530864000000
   \<and> \<not> date_le (getDateCreated parse_utc order_half_past)
               (getDateCreated parse_utc order_on_the_hour)"
proof -
  have k: "created_at order_half_past = Str ''2018-07-06T08:00:00.500Z''"
    "created_at order_on_the_hour = Str ''2018-07-06T08:00:00Z''"
    by (simp_all add: order_half_past_def order_on_the_hour_def created_at_copied)
       (simp_all add: half_past_def on_the_hour_def getprop_def)
  have s: "getprop on_the_hour ''state'' \<noteq> Undefined" "getprop half_past ''state'' \<noteq> Undefined"
    "getprop no_state ''state'' = Undefined"
    by (simp_all add: half_past_def on_the_hour_def no_state_def getprop_def)
  have c: "compareAscending sample_numeric (Str ''2018-07-06T08:00:00Z'')
             (Str ''2018-07-06T08:00:00.500Z'') = 1"
    by (simp add: compareAscending_def js_less_def Let_def)
  have "collect robinhood (w0\<lparr>sent := sent w0 @ [r]\<rparr>) alice [on_the_hour, no_state, half_past] []
          = (Inr [order_on_the_hour, order_half_past], w0\<lparr>sent := sent w0 @ [r]\<rparr>)" for r
    by (simp add: collect_eq s order_on_the_hour_def order_half_past_def)
  then have g: "fst (getOrders robinhood sample_numeric answer_listing w0 alice)
     = Resolved [order_half_past, order_on_the_hour]"
    by (simp add: getOrders_def answer_listing_def Let_def sortBy_def k c)
  have d: "getDateCreated parse_utc order_half_past = Time 1530864000500"
    "getDateCreated parse_utc order_on_the_hour = Time 1530864000000"
    by (simp_all add: getDateCreated_def k [unfolded created_at_def] parse_utc_string_def
        digit_def days_in_month_def leap_year_def days_from_civil_def)
  from g d show ?thesis by simp
qed


text \<open>
  C8, amended. When the transport succeeds, \<open>getOrders\<close> sends one request and resolves to
  the entries of the response that have a \<open>state\<close>, each one wrapped as an order on the
  executed path, in some order. When the \<open>created_at\<close> of each of these entries is a string
  the orders are sorted stably and ascending by that string, compared by code units; this
  is ascending by \<open>getDateCreated()\<close> whenever the dates of the listed orders grow with
  their strings.
\<close>

theorem getOrders_sorted_by_created_at:
  assumes "transport \<lparr> http_method = GET, uri = ''https://api.robinhood.com/options/orders/'',
                        authorization = ''Bearer '' @ getAuthToken u, json = None \<rparr> = Success res"
  shows "\<exists>array.
     getOrders robinhood_url numeric transport w u =
       (Resolved array,
        w\<lparr>sent := sent w @ [\<lparr> http_method = GET,
                                uri = ''https://api.robinhood.com/options/orders/'',
                                authorization = ''Bearer '' @ getAuthToken u, json = None \<rparr>]\<rparr>)
     \<and> mset array =
         mset (map (\<lambda>e. \<lparr> url = robinhood_url, usr = u, executed = True, form = None,
                           props = map (\<lambda>key. (key, getprop e key)) whitelist \<rparr>)
                 (filter (\<lambda>e. getprop e ''state'' \<noteq> Undefined) res))
     \<and> (\<forall>n\<in>set array. executed n)
     \<and> ((\<forall>e\<in>set res. getprop e ''state'' \<noteq> Undefined \<longrightarrow> (\<exists>s. getprop e ''created_at'' = Str s))
          \<longrightarrow> array =
                sort_key (\<lambda>n. string_value (created_at n))
                  (map (\<lambda>e. \<lparr> url = robinhood_url, usr = u, executed = True, form = None,
                               props = map (\<lambda>key. (key, getprop e key)) whitelist \<rparr>)
                     (filter (\<lambda>e. getprop e ''state'' \<noteq> Undefined) res))
              \<and> sorted (map (\<lambda>n. string_value (created_at n)) array)
              \<and> ((\<forall>a\<in>set array. \<forall>b\<in>set array.
                      string_value (created_at a) \<le> string_value (created_at b)
                      \<longrightarrow> date_le (getDateCreated parse a) (getDateCreated parse b))
                   \<longrightarrow> sorted_wrt (\<lambda>a b. date_le (getDateCreated parse a) (getDateCreated parse b))
                         array))"
proof -
  let ?wrap = "\<lambda>e. \<lparr> url = robinhood_url, usr = u, executed = True, form = None,
                      props = map (\<lambda>key. (key, getprop e key)) whitelist \<rparr>"
  let ?kept = "map ?wrap (filter (\<lambda>e. getprop e ''state'' \<noteq> Undefined) res)"
  let ?array = "sortBy (compareAscending numeric) created_at ?kept"
  let ?skey = "\<lambda>n. string_value (created_at n)"
  have g: "getOrders robinhood_url numeric transport w u =
       (Resolved ?array,
        w\<lparr>sent := sent w @ [\<lparr> http_method = GET,
                                uri = ''https://api.robinhood.com/options/orders/'',
                                authorization = ''Bearer '' @ getAuthToken u, json = None \<rparr>]\<rparr>)"
    using assms by (simp add: getOrders_def Let_def collect_eq)
  have m: "mset ?array = mset ?kept" by (rule sortBy_mset)
  then have "set ?array = set ?kept" by (rule mset_eq_setD)
  then have e: "\<forall>n\<in>set ?array. executed n" by auto
  have s: "?array = sort_key ?skey ?kept \<and> sorted (map ?skey ?array)
           \<and> ((\<forall>a\<in>set ?array. \<forall>b\<in>set ?array. ?skey a \<le> ?skey b
                   \<longrightarrow> date_le (getDateCreated parse a) (getDateCreated parse b))
                \<longrightarrow> sorted_wrt (\<lambda>a b. date_le (getDateCreated parse a) (getDateCreated parse b))
                      ?array)"
    if strings: "\<forall>e\<in>set res. getprop e ''state'' \<noteq> Undefined \<longrightarrow> (\<exists>s. getprop e ''created_at'' = Str s)"
  proof -
    from strings have "\<forall>n\<in>set ?kept. created_at n = Str (?skey n)"
      by (auto simp add: created_at_copied)
    then have a: "?array = sort_key ?skey ?kept" by (rule sortBy_sort_key)
    then have b: "sorted (map ?skey ?array)" by simp
    then have "sorted_wrt (\<lambda>a b. ?skey a \<le> ?skey b) ?array" by (simp add: sorted_map)
    then have "sorted_wrt (\<lambda>a b. date_le (getDateCreated parse a) (getDateCreated parse b)) ?array"
      if "\<forall>a\<in>set ?array. \<forall>b\<in>set ?array. ?skey a \<le> ?skey b
                   \<longrightarrow> date_le (getDateCreated parse a) (getDateCreated parse b)"
      using that by (auto elim!: sorted_wrt_mono_rel [rotated])
    with a b show ?thesis by blast
  qed
  from g m e s show ?thesis by blast
qed

theorem getOrders_sorted_by_created_at_witness:
  "answer_uniform \<lparr> http_method = GET, uri = ''https://api.robinhood.com/options/orders/'',
                     authorization = ''Bearer '' @ getAuthToken alice, json = None \<rparr>
     = Success [half_past, no_state, early]
   \<and> fst (getOrders robinhood sample_numeric answer_uniform w0 alice)
       = Resolved [order_early, order_half_past]
   \<and> executed order_early \<and> executed order_half_past
   \<and> sorted (map (\<lambda>n. string_value (created_at n)) [order_early, order_half_past])
   \<and> sorted_wrt (\<lambda>a b. date_le (getDateCreated parse_utc a) (getDateCreated parse_utc b))
        [order_early, order_half_past]"
proof -
  have a: "answer_uniform \<lparr> http_method = GET, uri = ''https://api.robinhood.com/options/orders/'',
                     authorization = ''Bearer '' @ getAuthToken alice, json = None \<rparr>
     = Success [half_past, no_state, early]" by (simp add: answer_uniform_def)
  have k: "created_at order_half_past = Str ''2018-07-06T08:00:00.500Z''"
    "created_at order_early = Str ''2018-07-06T07:30:00.250Z''"
    by (simp_all add: order_half_past_def order_early_def created_at_copied)
       (simp_all add: half_past_def early_def getprop_def)
  have st: "getprop early ''state'' \<noteq> Undefined" "getprop half_past ''state'' \<noteq> Undefined"
    "getprop no_state ''state'' = Undefined"
    by (simp_all add: half_past_def early_def no_state_def getprop_def)
  have strings: "\<forall>e\<in>set [half_past, no_state, early].
      getprop e ''state'' \<noteq> Undefined \<longrightarrow> (\<exists>s. getprop e ''created_at'' = Str s)"
    by (simp add: half_past_def early_def no_state_def getprop_def)
  have c: "compareAscending sample_numeric (Str ''2018-07-06T08:00:00.500Z'')
             (Str ''2018-07-06T07:30:00.250Z'') = 1"
    by (simp add: compareAscending_def js_less_def Let_def)
  have "collect robinhood (w0\<lparr>sent := sent w0 @ [r]\<rparr>) alice [half_past, no_state, early] []
          = (Inr [order_half_past, order_early], w0\<lparr>sent := sent w0 @ [r]\<rparr>)" for r
    by (simp add: collect_eq st order_early_def order_half_past_def)
  then have g: "getOrders robinhood sample_numeric answer_uniform w0 alice
     = (Resolved [order_early, order_half_past],
        w0\<lparr>sent := sent w0 @ [\<lparr> http_method = GET,
                                uri = ''https://api.robinhood.com/options/orders/'',
                                authorization = ''Bearer '' @ getAuthToken alice, json = None \<rparr>]\<rparr>)"
    by (simp add: getOrders_def answer_uniform_def Let_def sortBy_def k c)
  have d: "getDateCreated parse_utc order_half_past = Time 1530864000500"
    "getDateCreated parse_utc order_early = Time 1530862200250"
    by (simp_all add: getDateCreated_def k [unfolded created_at_def] parse_utc_string_def
        digit_def days_in_month_def leap_year_def days_from_civil_def)
  have mono: "\<forall>a\<in>set [order_early, order_half_past]. \<forall>b\<in>set [order_early, order_half_past].
      string_value (created_at a) \<le> string_value (created_at b)
        \<longrightarrow> date_le (getDateCreated parse_utc a) (getDateCreated parse_utc b)"
    by (simp add: k d)
  from getOrders_sorted_by_created_at [where transport = answer_uniform and u = alice
      and robinhood_url = robinhood and numeric = sample_numeric and w = w0 and parse = parse_utc,
      OF a]
    g strings mono
  have "sorted (map (\<lambda>n. string_value (created_at n)) [order_early, order_half_past])
        \<and> sorted_wrt (\<lambda>a b. date_le (getDateCreated parse_utc a) (getDateCreated parse_utc b))
             [order_early, order_half_past]"
    by auto
  with a g show ?thesis by (simp add: order_early_def order_half_past_def)
qed

section \<open>Accessors of the two kinds of order\<close>

text \<open>
  C9. An order built from a server record is reproduced by building an order from its own
  copied properties: the constructor takes the server path again and returns an equal
  instance, so every accessor returns on it what it returns on the original.
\<close>

theorem executed_round_trip:
  assumes "VerticalOptionOrder robinhood_url w u object = (Inr this, w')" and "executed this"
  shows "VerticalOptionOrder (url this) w2 (usr this) (props this) = (Inr this, w2)"
proof -
  from construct_cases [OF assms(1)] assms(2)
  have d: "getprop object ''state'' \<noteq> Undefined \<or> getprop object ''cancel_url'' \<noteq> Undefined"
    by auto
  from construct_existing [OF d, of robinhood_url w u] assms(1)
  have t: "this = \<lparr> url = robinhood_url, usr = u, executed = True, form = None,
                    props = map (\<lambda>key. (key, getprop object key)) whitelist \<rparr>" by simp
  have same: "getprop (props this) key = getprop object key" if "key \<in> set whitelist" for key
    using that by (simp add: t getprop_copied)
  have "''state'' \<in> set whitelist" "''cancel_url'' \<in> set whitelist"
    by (simp_all add: whitelist_def)
  with d same
  have "getprop (props this) ''state'' \<noteq> Undefined \<or> getprop (props this) ''cancel_url'' \<noteq> Undefined"
    by simp
  from construct_existing [OF this, of "url this" w2 "usr this"]
  have "VerticalOptionOrder (url this) w2 (usr this) (props this) =
    (Inr \<lparr> url = url this, usr = usr this, executed = True, form = None,
           props = map (\<lambda>key. (key, getprop (props this) key)) whitelist \<rparr>, w2)" .
  moreover have "map (\<lambda>key. (key, getprop (props this) key)) whitelist
                 = map (\<lambda>key. (key, getprop object key)) whitelist"
    using same by simp
  ultimately show ?thesis by (simp add: t)
qed

theorem executed_round_trip_witness:
  "VerticalOptionOrder robinhood w0 alice filled = (Inr filled_order, w0)
   \<and> executed filled_order
   \<and> VerticalOptionOrder (url filled_order) w0 (usr filled_order) (props filled_order)
       = (Inr filled_order, w0)"
proof -
  have e: "executed filled_order" by (simp add: filled_order_def)
  from executed_round_trip [OF construct_filled [of w0] e, of w0] e construct_filled [of w0]
  show ?thesis by simp
qed

text \<open>
  C10. On a new order no accessor fails, and each one that reads a property of a server
  record finds nothing: the plain accessors return \<open>undefined\<close>, the accessors that coerce
  to a number return the empty number \<open>NaN\<close>, \<open>getDateCreated()\<close> returns the invalid date,
  and \<open>isCredit()\<close> and \<open>isDebit()\<close> are false. An accessor is a function of the instance
  alone: it has no error result and neither reads nor changes the world.
\<close>

theorem pending_accessors:
  assumes "VerticalOptionOrder robinhood_url w u object = (Inr this, w')" and "\<not> executed this"
  shows "getLegs this = Undefined \<and> getDirection this = Undefined
         \<and> getPremium this = Undefined \<and> getProcessedPremium this = Undefined
         \<and> getTimeInForce this = Undefined \<and> getReferenceID this = Undefined
         \<and> getTrigger this = Undefined \<and> getType this = Undefined
         \<and> getChainID this = Undefined \<and> getSymbol this = Undefined
         \<and> getPrice coerce this = NaN \<and> getQuantity coerce this = NaN
         \<and> getQuantityPending coerce this = NaN \<and> getQuantityCanceled coerce this = NaN
         \<and> getDateCreated parse this = Invalid_Date
         \<and> isCredit this = False \<and> isDebit this = False \<and> isExecuted this = False"
proof -
  from construct_cases [OF assms(1)] assms(2)
  have n: "getprop object ''state'' = Undefined" "getprop object ''cancel_url'' = Undefined"
    and v: "validate u object = None" by auto
  from construct_new [OF n v, of robinhood_url w] assms(1)
  have p: "props this = []" by auto
  have u: "getprop (props this) key = Undefined" for key by (simp add: p getprop_def)
  from assms(2) show ?thesis
    by (simp add: u getLegs_def getDirection_def getPremium_def getProcessedPremium_def
        getTimeInForce_def getReferenceID_def getTrigger_def getType_def getChainID_def
        getSymbol_def getPrice_def getQuantity_def getQuantityPending_def
        getQuantityCanceled_def getDateCreated_def isCredit_def isDebit_def isExecuted_def
        TimeClip_def)
qed

theorem pending_accessors_witness:
  "VerticalOptionOrder robinhood w0 alice buy_limit = (Inr pending_buy, w0)
   \<and> \<not> executed pending_buy
   \<and> getLegs pending_buy = Undefined \<and> getReferenceID pending_buy = Undefined
   \<and> getPrice sample_coerce pending_buy = NaN
   \<and> getDateCreated parse_utc pending_buy = Invalid_Date"
proof -
  have p: "\<not> executed pending_buy" by (simp add: pending_buy_def)
  from pending_accessors [OF construct_buy_limit p, of sample_coerce parse_utc] p construct_buy_limit
  show ?thesis by simp
qed

end
